theory Spec2Isabelle
  imports Complex_Main "HOL-Library.Word"
begin

section \<open>JavaScript strings\<close>

text \<open>
  A JavaScript string is a sequence of 16-bit code units; \<open>length\<close> counts code units,
  as the \<^verbatim>\<open>.length\<close> property does. \<open>js\<close> embeds an ASCII literal of the source.
\<close>

type_synonym code_unit = "16 word"
type_synonym jsstring = "code_unit list"

definition js :: "string \<Rightarrow> jsstring" where
  "js = map of_char"

abbreviation LF :: code_unit where
  "LF \<equiv> 0x0A"

text \<open>
  The class \<^verbatim>\<open>\s\<close> of a regular expression and the characters removed by
  \<^verbatim>\<open>String.prototype.trim\<close> are the same set: WhiteSpace and LineTerminator of
  ECMAScript (TAB, LF, VT, FF, CR, SP, NBSP, U+1680, U+2000 to U+200A, LS, PS, U+202F,
  U+205F, U+3000 and the byte order mark).
\<close>

definition isWhiteSpace :: "code_unit \<Rightarrow> bool" where
  "isWhiteSpace c \<longleftrightarrow>
     c \<in> {0x09, 0x0A, 0x0B, 0x0C, 0x0D, 0x20, 0xA0, 0x1680, 0x2028, 0x2029,
          0x202F, 0x205F, 0x3000, 0xFEFF} \<or> (0x2000 \<le> c \<and> c \<le> 0x200A)"

definition trim :: "jsstring \<Rightarrow> jsstring" where
  "trim s = rev (dropWhile isWhiteSpace (rev (dropWhile isWhiteSpace s)))"

definition startsWith :: "jsstring \<Rightarrow> jsstring \<Rightarrow> bool" where
  "startsWith s p \<longleftrightarrow> take (length p) s = p"

definition endsWith :: "jsstring \<Rightarrow> jsstring \<Rightarrow> bool" where
  "endsWith s p \<longleftrightarrow> length p \<le> length s \<and> drop (length s - length p) s = p"

text \<open>
  \<^verbatim>\<open>s.substring(a, b)\<close> on non-negative arguments: the arguments are swapped when
  \<open>a > b\<close> and clamped to the length, which \<open>take\<close> and \<open>drop\<close> do.
  \<^verbatim>\<open>s.substring(a)\<close> is \<open>drop a s\<close>.
\<close>

definition substring :: "jsstring \<Rightarrow> nat \<Rightarrow> nat \<Rightarrow> jsstring" where
  "substring s a b = take (max a b - min a b) (drop (min a b) s)"

text \<open>\<^verbatim>\<open>Array.prototype.join\<close> on an array of strings.\<close>

fun join :: "jsstring \<Rightarrow> jsstring list \<Rightarrow> jsstring" where
  "join sep [] = []"
| "join sep [x] = x"
| "join sep (x # y # ys) = x @ sep @ join sep (y # ys)"

section \<open>Thrown values and JSON values\<close>

text \<open>
  A value that a \<^verbatim>\<open>throw\<close> or a rejected promise carries: an object created by
  the global \<^verbatim>\<open>Error\<close> constructor, with its message; a \<^verbatim>\<open>TypeError\<close> raised by
  the engine, which is an instance of \<^verbatim>\<open>Error\<close> as well and has a message; or anything
  else (a value that is no object with a \<^verbatim>\<open>message\<close>). A function that may throw
  returns \<open>thrown + 'a\<close>.
\<close>

datatype thrown = Error (message: jsstring) | TypeError (message: jsstring) | NonError

text \<open>
  \<^verbatim>\<open>error instanceof Error\<close>, and also
  \<^verbatim>\<open>error && typeof error === 'object' && 'message' in error\<close>.
\<close>

definition instanceof_Error :: "thrown \<Rightarrow> bool" where
  "instanceof_Error error \<longleftrightarrow> error \<noteq> NonError"

text \<open>
  What \<^verbatim>\<open>JSON.parse\<close> returns. A number keeps its lexeme; an object keeps its members
  in the order of the text.
\<close>

datatype json =
    JNull
  | JBool bool
  | JNumber jsstring
  | JString jsstring
  | JArray "json list"
  | JObject "(jsstring \<times> json) list"

section \<open>services/gemini.ts\<close>

record AnalysisResult =
  summary :: jsstring
  keyPoints :: "jsstring list"
  legalIssues :: "jsstring list"
  recommendations :: "jsstring list"
  documentType :: jsstring
  parties :: "jsstring list"
  dates :: "jsstring list"
  jurisdiction :: jsstring

text \<open>
  An \<^verbatim>\<open>AnalysisResult\<close> is an interface of TypeScript, erased at run time: the value
  that \<^verbatim>\<open>analyzeDocument\<close> returns is whatever \<^verbatim>\<open>JSON.parse\<close> produced, or the
  object literal of the fallback. \<open>object_of\<close> is the object that a record of the
  interface denotes.
\<close>

definition object_of :: "AnalysisResult \<Rightarrow> json" where
  "object_of a = JObject
     [(js ''summary'', JString (summary a)),
      (js ''keyPoints'', JArray (map JString (keyPoints a))),
      (js ''legalIssues'', JArray (map JString (legalIssues a))),
      (js ''recommendations'', JArray (map JString (recommendations a))),
      (js ''documentType'', JString (documentType a)),
      (js ''parties'', JArray (map JString (parties a))),
      (js ''dates'', JArray (map JString (dates a))),
      (js ''jurisdiction'', JString (jurisdiction a))]"

text \<open>
  The environment of the module: the API key of the build
  (\<open>None\<close> when \<^verbatim>\<open>VITE_GEMINI_API_KEY\<close> is undefined), the text generation service
  (\<^verbatim>\<open>model.generateContent(prompt)\<close> followed by \<^verbatim>\<open>response.text()\<close>: the reply,
  or what was thrown), and the two built-in JSON functions (\<^verbatim>\<open>JSON.parse\<close> gives
  \<open>None\<close> where it throws a SyntaxError).
\<close>

record platform =
  API_KEY :: "jsstring option"
  generateContent :: "jsstring \<Rightarrow> thrown + jsstring"
  JSON_parse :: "jsstring \<Rightarrow> json option"
  JSON_stringify :: "json \<Rightarrow> jsstring"

text \<open>
  \<^verbatim>\<open>genAI\<close> is created when the key is truthy (defined and not the empty string), and
  \<^verbatim>\<open>model\<close> is obtained from it; \<^verbatim>\<open>!model\<close> holds exactly when the key is falsy.
\<close>

definition model_present :: "'a platform_scheme \<Rightarrow> bool" where
  "model_present P = (case API_KEY P of None \<Rightarrow> False | Some k \<Rightarrow> k \<noteq> [])"

definition cleanGeminiResponse :: "jsstring \<Rightarrow> jsstring" where
  "cleanGeminiResponse response =
     (let cleaned = trim response;
          cleaned = (if startsWith cleaned (js ''```json'') then drop 7 cleaned
                     else if startsWith cleaned (js ''```'') then drop 3 cleaned
                     else cleaned);
          cleaned = (if endsWith cleaned (js ''```'')
                     then substring cleaned 0 (length cleaned - 3)
                     else cleaned)
      in trim cleaned)"

definition analysis_prompt :: "jsstring \<Rightarrow> jsstring" where
  \<open>analysis_prompt text =
     js ''\<newline>'' @
     js ''You are a legal AI assistant. Analyze the following text that was extracted from a document. The text may be from various types of documents (legal, business, academic, etc.) and might contain some extraction artifacts or formatting issues.\<newline>'' @
     js ''\<newline>'' @
     js ''Document Text:\<newline>'' @
     js ''"""\<newline>'' @
     text @
     js ''\<newline>'' @
     js ''"""\<newline>'' @
     js ''\<newline>'' @
     js ''Please provide your analysis in the following JSON structure. Be flexible and work with whatever content is provided - even if it's not a perfect legal document:\<newline>'' @
     js ''\<newline>'' @
     js ''{\<newline>'' @
     js ''  "summary": "A comprehensive summary of the document content in 2-3 sentences",\<newline>'' @
     js ''  "keyPoints": ["Key point 1", "Key point 2", "Key point 3", ...],\<newline>'' @
     js ''  "legalIssues": ["Legal issue 1", "Legal issue 2", ...],\<newline>'' @
     js ''  "recommendations": ["Recommendation 1", "Recommendation 2", ...],\<newline>'' @
     js ''  "documentType": "Type of document (e.g., Contract, Agreement, Legal Brief, Business Document, Letter, etc.)",\<newline>'' @
     js ''  "parties": ["Party 1", "Party 2", ...],\<newline>'' @
     js ''  "dates": ["Important date 1", "Important date 2", ...],\<newline>'' @
     js ''  "jurisdiction": "Relevant jurisdiction or 'Not specified'"\<newline>'' @
     js ''}\<newline>'' @
     js ''\<newline>'' @
     js ''Guidelines for analysis:\<newline>'' @
     js ''1. **Be flexible**: Work with any type of document content, even if imperfect\<newline>'' @
     js ''2. **Extract value**: Find meaningful information even from poorly formatted text\<newline>'' @
     js ''3. **Document classification**: Identify what type of document this appears to be\<newline>'' @
     js ''4. **Key information**: Extract names, dates, important terms, obligations, rights\<newline>'' @
     js ''5. **Legal relevance**: Identify any legal implications, even in non-legal documents\<newline>'' @
     js ''6. **Practical advice**: Provide actionable recommendations based on the content\<newline>'' @
     js ''7. **Context awareness**: Consider business, contractual, or regulatory contexts\<newline>'' @
     js ''\<newline>'' @
     js ''If the text appears to be corrupted or unreadable:\<newline>'' @
     js ''- Still attempt to extract any readable portions\<newline>'' @
     js ''- Identify the likely document type if possible\<newline>'' @
     js ''- Provide recommendations for document improvement\<newline>'' @
     js ''- Note specific issues with text extraction\<newline>'' @
     js ''\<newline>'' @
     js ''Focus on being helpful rather than dismissive. Even fragmentary or imperfect documents can yield useful insights.\<newline>''\<close>

definition fallback :: AnalysisResult where
  "fallback =
     \<lparr>summary = js ''Document analysis completed. The AI has processed the available content and extracted key information where possible.'',
      keyPoints = [js ''Document uploaded and processed'',
                   js ''Content analyzed for key information'',
                   js ''Analysis completed with available data''],
      legalIssues = [js ''Text extraction quality may affect analysis accuracy''],
      recommendations = [js ''Review the original document for complete accuracy'',
                         js ''Consider re-uploading if text appears corrupted'',
                         js ''Consult with a legal professional for important matters''],
      documentType = js ''Document (type analysis in progress)'',
      parties = [js ''Analysis in progress''],
      dates = [js ''Analysis in progress''],
      jurisdiction = js ''Not specified''\<rparr>"

definition not_configured_message :: jsstring where
  "not_configured_message = js ''Gemini API is not configured. Please provide a valid API key.''"

definition analyze_failed_message :: jsstring where
  "analyze_failed_message =
     js ''Failed to analyze document. Please check your API key and try again.''"

definition ask_failed_message :: jsstring where
  "ask_failed_message = js ''Failed to get answer. Please check your API key and try again.''"

text \<open>
  \<^verbatim>\<open>GeminiService.analyzeDocument\<close>. The guard on \<^verbatim>\<open>model\<close> throws before the outer
  \<^verbatim>\<open>try\<close>; whatever the service call throws is caught by the outer \<^verbatim>\<open>catch\<close> and
  replaced by a new Error; the inner \<^verbatim>\<open>try\<close> covers the cleaning and \<^verbatim>\<open>JSON.parse\<close>,
  and its \<^verbatim>\<open>catch\<close> returns the fallback object.
\<close>

definition analyzeDocument :: "'a platform_scheme \<Rightarrow> jsstring \<Rightarrow> thrown + json" where
  "analyzeDocument P text =
     (if \<not> model_present P then Inl (Error not_configured_message)
      else case generateContent P (analysis_prompt text) of
             Inl error \<Rightarrow> Inl (Error analyze_failed_message)
           | Inr analysisText \<Rightarrow>
               (case JSON_parse P (cleanGeminiResponse analysisText) of
                  Some analysis \<Rightarrow> Inr analysis
                | None \<Rightarrow> Inr (object_of fallback)))"

text \<open>
  The optional \<^verbatim>\<open>previousContext\<close> is \<open>None\<close> when the argument is undefined; the
  template includes it when it is truthy.
\<close>

definition question_prompt :: "jsstring \<Rightarrow> jsstring \<Rightarrow> jsstring option \<Rightarrow> jsstring" where
  \<open>question_prompt documentText question previousContext =
     js ''\<newline>'' @
     js ''You are a legal AI assistant. You have access to a legal document and need to answer a specific question about it.\<newline>'' @
     js ''\<newline>'' @
     js ''Document Text:\<newline>'' @
     js ''"""\<newline>'' @
     documentText @
     js ''\<newline>'' @
     js ''"""\<newline>'' @
     js ''\<newline>'' @
     (case previousContext of
        None \<Rightarrow> []
      | Some c \<Rightarrow>
          if c \<noteq> [] then js ''Previous Analysis Context:\<newline>'' @ c @ js ''\<newline>''
          else []) @
     js ''\<newline>'' @
     js ''\<newline>'' @
     js ''Question: '' @
     question @
     js ''\<newline>'' @
     js ''\<newline>'' @
     js ''Please provide a detailed, accurate answer based solely on the information in the document. If the document doesn't contain sufficient information to answer the question, clearly state that. Focus on legal accuracy and cite specific sections or clauses when relevant.\<newline>'' @
     js ''\<newline>'' @
     js ''Guidelines:\<newline>'' @
     js ''1. Base your answer only on the provided document\<newline>'' @
     js ''2. Be specific and cite relevant sections\<newline>'' @
     js ''3. If information is not available in the document, explicitly state this\<newline>'' @
     js ''4. Provide legal context when helpful\<newline>'' @
     js ''5. Keep the response professional and legally sound\<newline>'' @
     js ''6. If the question requires legal advice, remind that this is for informational purposes only\<newline>'' @
     js ''\<newline>'' @
     js ''Answer:\<newline>''\<close>

definition askQuestion ::
  "'a platform_scheme \<Rightarrow> jsstring \<Rightarrow> jsstring \<Rightarrow> jsstring option \<Rightarrow> thrown + jsstring" where
  "askQuestion P documentText question previousContext =
     (if \<not> model_present P then Inl (Error not_configured_message)
      else case generateContent P (question_prompt documentText question previousContext) of
             Inl error \<Rightarrow> Inl (Error ask_failed_message)
           | Inr answer \<Rightarrow> Inr answer)"

definition isConfigured :: "'a platform_scheme \<Rightarrow> bool" where
  "isConfigured P \<longleftrightarrow>
     (case API_KEY P of None \<Rightarrow> False | Some k \<Rightarrow> k \<noteq> []) \<and> model_present P"

section \<open>components/PDFUpload\<close>

text \<open>
  An item of a page's text content has a \<^verbatim>\<open>str\<close> property (a text item) or has none
  (marked content); the latter contributes the empty string.
\<close>

datatype text_item = TextItem jsstring | TextMarkedContent

definition pageText :: "text_item list \<Rightarrow> jsstring" where
  "pageText items =
     join (js '' '') (map (\<lambda>item. case item of TextItem s \<Rightarrow> s | TextMarkedContent \<Rightarrow> []) items)"

definition fullText :: "text_item list list \<Rightarrow> jsstring" where
  "fullText pages = join (js ''\<newline>\<newline>'') (map pageText pages)"

text \<open>
  \<^verbatim>\<open>.replace(/\s+/g, ' ')\<close>: scanning from the left, every maximal run of whitespace
  characters is replaced by one space.
\<close>

function replace_whitespace_runs :: "jsstring \<Rightarrow> jsstring" where
  "replace_whitespace_runs [] = []"
| "replace_whitespace_runs (c # cs) =
     (if isWhiteSpace c then 0x20 # replace_whitespace_runs (dropWhile isWhiteSpace cs)
      else c # replace_whitespace_runs cs)"
  by pat_completeness auto
termination
  by (relation "measure length") (simp_all add: length_dropWhile_le less_Suc_eq_le)

text \<open>
  \<^verbatim>\<open>/\n\s*\n/\<close> at a line feed: \<^verbatim>\<open>\s*\<close> is greedy and backtracks, so the match ends
  at the last line feed of the whitespace run that follows. \<open>blank_line_match cs\<close> is
  the number of characters of \<open>cs\<close> that the match consumes after the first line feed,
  or \<open>None\<close> when the run holds no line feed.
\<close>

definition blank_line_match :: "jsstring \<Rightarrow> nat option" where
  "blank_line_match cs =
     (let run = takeWhile isWhiteSpace cs
      in if LF \<in> set run
         then Some (length run - length (takeWhile (\<lambda>x. x \<noteq> LF) (rev run)))
         else None)"

text \<open>\<^verbatim>\<open>.replace(/\n\s*\n/g, '\n')\<close>: each match, found from the left, becomes one line feed.\<close>

function replace_blank_lines :: "jsstring \<Rightarrow> jsstring" where
  "replace_blank_lines [] = []"
| "replace_blank_lines (c # cs) =
     (if c = LF
      then (case blank_line_match cs of
              Some k \<Rightarrow> LF # replace_blank_lines (drop k cs)
            | None \<Rightarrow> c # replace_blank_lines cs)
      else c # replace_blank_lines cs)"
  by pat_completeness auto
termination
  by (relation "measure length") simp_all

definition cleanedText :: "jsstring \<Rightarrow> jsstring" where
  "cleanedText full = trim (replace_blank_lines (replace_whitespace_runs full))"

definition insufficient_text_message :: jsstring where
  "insufficient_text_message = js ''Could not extract sufficient readable text from the PDF. The document might be image-based, password-protected, or contain mostly non-text content.''"

definition extraction_failed_message :: jsstring where
  "extraction_failed_message = js ''Failed to extract text from PDF. Please ensure the file is a valid, unprotected PDF document.''"

text \<open>
  What \<^verbatim>\<open>throw new Error(msg)\<close> throws in this module. The module imports the icon
  \<^verbatim>\<open>Error\<close> from \<^verbatim>\<open>@mui/icons-material\<close>, and the import shadows the global
  constructor in the whole file. The icon is a component object and no constructor, so
  the evaluation of \<^verbatim>\<open>new Error(msg)\<close> raises a TypeError; the Error with \<open>msg\<close>
  is never created. The message of the TypeError is the engine's.
\<close>

definition not_a_constructor_message :: jsstring where
  "not_a_constructor_message = js ''Error is not a constructor''"

definition throw_new_Error :: "jsstring \<Rightarrow> thrown" where
  "throw_new_Error msg = TypeError not_a_constructor_message"

text \<open>
  The body of the \<^verbatim>\<open>try\<close> of \<^verbatim>\<open>extractTextFromPDF\<close>. Its argument is what the awaits
  on the PDF library deliver: the items of every page in page order (\<^verbatim>\<open>Promise.all\<close>
  keeps the order of the promises), or the value thrown by \<^verbatim>\<open>file.arrayBuffer\<close>,
  \<^verbatim>\<open>getDocument\<close>, \<^verbatim>\<open>getPage\<close> or \<^verbatim>\<open>getTextContent\<close>.
\<close>

definition extractTextFromPDF_try :: "thrown + text_item list list \<Rightarrow> thrown + jsstring" where
  "extractTextFromPDF_try loaded =
     (case loaded of
        Inl error \<Rightarrow> Inl error
      | Inr pages \<Rightarrow>
          (let cleaned = cleanedText (fullText pages)
           in if cleaned = [] \<or> length cleaned < 50
              then Inl (throw_new_Error insufficient_text_message)
              else Inr cleaned))"

text \<open>
  The \<^verbatim>\<open>catch\<close>: for an object with a message it runs
  \<^verbatim>\<open>throw new Error(error.message)\<close>, for any other value
  \<^verbatim>\<open>throw new Error('Failed to extract ...')\<close>.
\<close>

definition extractTextFromPDF :: "thrown + text_item list list \<Rightarrow> thrown + jsstring" where
  "extractTextFromPDF loaded =
     (case extractTextFromPDF_try loaded of
        Inr text \<Rightarrow> Inr text
      | Inl error \<Rightarrow>
          if instanceof_Error error then Inl (throw_new_Error (message error))
          else Inl (throw_new_Error extraction_failed_message))"

text \<open>
  Progress. The callback of page \<open>pageNum\<close> calls
  \<^verbatim>\<open>setExtractionProgress((pageNum / pdf.numPages) * 100)\<close> when the text content of that
  page has arrived. The pages are requested together, so the callbacks run in the order
  in which the pages complete. The value is computed here in exact arithmetic.
\<close>

definition progress_value :: "nat \<Rightarrow> nat \<Rightarrow> rat" where
  "progress_value numPages pageNum = (of_nat pageNum / of_nat numPages) * 100"

definition progress_reports :: "nat \<Rightarrow> nat list \<Rightarrow> rat list" where
  "progress_reports numPages completed = map (progress_value numPages) completed"

text \<open>A completion order of a job of \<open>numPages\<close> pages: every page 1 to \<open>numPages\<close>, once.\<close>

definition completion_order :: "nat \<Rightarrow> nat list \<Rightarrow> bool" where
  "completion_order numPages completed \<longleftrightarrow> sort completed = [1..<Suc numPages]"

section \<open>The session: App, DocumentAnalysis and ChatInterface\<close>

record File =
  file_name :: jsstring
  file_type :: jsstring
  file_size :: nat

datatype role = user | assistant

record message =
  msg_id :: nat
  msg_type :: role
  content :: jsstring
  timestamp :: nat

text \<open>
  The state variables of the three components. \<open>analysis\<close> is the string of
  \<^verbatim>\<open>App\<close> that is passed to the chat; \<open>da_analysis\<close> and \<open>da_error\<close> are
  \<^verbatim>\<open>analysis\<close> and \<^verbatim>\<open>error\<close> of \<^verbatim>\<open>DocumentAnalysis\<close> (the result shown in the
  analysis pane; it is \<open>JNull\<close> while the pane has none, as the state is null then);
  \<open>chat_error\<close> is \<^verbatim>\<open>error\<close> of \<^verbatim>\<open>ChatInterface\<close>. A state setter is an update
  of its field. The state variables of \<^verbatim>\<open>PDFUpload\<close> (the progress and the error of
  the upload area) are not part of the record.
\<close>

record session =
  uploadedFile :: "File option"
  extractedText :: jsstring
  analysis :: jsstring
  isAnalyzing :: bool
  da_analysis :: json
  da_error :: "jsstring option"
  autoAnalyzeStarted :: bool
  messages :: "message list"
  input :: jsstring
  isLoading :: bool
  chat_error :: "jsstring option"

definition initial_session :: session where
  "initial_session =
     \<lparr>uploadedFile = None, extractedText = [], analysis = [], isAnalyzing = False,
      da_analysis = JNull, da_error = None, autoAnalyzeStarted = False,
      messages = [], input = [], isLoading = False, chat_error = None\<rparr>"

subsection \<open>App\<close>

definition handleFileUpload :: "File \<Rightarrow> session \<Rightarrow> session" where
  "handleFileUpload f s = s\<lparr>uploadedFile := Some f, analysis := []\<rparr>"

definition handleTextExtracted :: "jsstring \<Rightarrow> session \<Rightarrow> session" where
  "handleTextExtracted text s = s\<lparr>extractedText := text\<rparr>"

definition handleAnalysisComplete :: "jsstring \<Rightarrow> session \<Rightarrow> session" where
  "handleAnalysisComplete analysisResult s = s\<lparr>analysis := analysisResult, isAnalyzing := False\<rparr>"

subsection \<open>DocumentAnalysis\<close>

text \<open>
  The asynchronous \<^verbatim>\<open>analyzeDocument\<close> of the component runs in two steps: up to the
  \<^verbatim>\<open>await\<close> (\<open>begin\<close>, which also tells with which text the service is called, if
  it is), and from the moment the call settles (\<open>settle\<close>). Other handlers may run
  in between.
\<close>

definition no_text_message :: jsstring where
  "no_text_message = js ''No text extracted from the document.''"

definition unknown_error_message :: jsstring where
  "unknown_error_message = js ''Unknown error occurred''"

definition DocumentAnalysis_analyzeDocument_begin :: "session \<Rightarrow> session \<times> jsstring option" where
  "DocumentAnalysis_analyzeDocument_begin s =
     (if extractedText s = [] then (s\<lparr>da_error := Some no_text_message\<rparr>, None)
      else (s\<lparr>isAnalyzing := True, da_error := None\<rparr>, Some (extractedText s)))"

definition DocumentAnalysis_analyzeDocument_settle ::
  "'a platform_scheme \<Rightarrow> thrown + json \<Rightarrow> session \<Rightarrow> session" where
  "DocumentAnalysis_analyzeDocument_settle P outcome s =
     (case outcome of
        Inr result \<Rightarrow>
          (handleAnalysisComplete (JSON_stringify P result) (s\<lparr>da_analysis := result\<rparr>))
            \<lparr>isAnalyzing := False\<rparr>
      | Inl error \<Rightarrow>
          s\<lparr>da_error := Some (if instanceof_Error error then message error
                              else unknown_error_message),
            isAnalyzing := False\<rparr>)"

text \<open>The effect that starts the analysis once text has been extracted.\<close>

definition autoAnalyze_effect :: "'a platform_scheme \<Rightarrow> session \<Rightarrow> session \<times> jsstring option" where
  "autoAnalyze_effect P s =
     (if extractedText s \<noteq> [] \<and> \<not> autoAnalyzeStarted s \<and> isConfigured P
      then DocumentAnalysis_analyzeDocument_begin (s\<lparr>autoAnalyzeStarted := True\<rparr>)
      else (s, None))"

text \<open>The click handler of the button "Re-analyze Document".\<close>

definition reanalyze_click :: "session \<Rightarrow> session \<times> jsstring option" where
  "reanalyze_click s =
     DocumentAnalysis_analyzeDocument_begin (s\<lparr>da_analysis := JNull, autoAnalyzeStarted := False\<rparr>)"

subsection \<open>ChatInterface\<close>

definition welcomeMessage :: "nat \<Rightarrow> jsstring \<Rightarrow> message" where
  \<open>welcomeMessage now fileName =
     \<lparr>msg_id = now, msg_type = assistant,
      content = js ''Hello! I've analyzed your document "'' @ fileName @
        js ''". You can now ask me specific questions about the content, legal provisions, clauses, or anything else related to this document. What would you like to know?'',
      timestamp = now\<rparr>\<close>

text \<open>
  The effect that adds the welcome message; the component is mounted, and \<open>fileName\<close>
  defined, once a file is uploaded. \<open>now\<close> is the value of \<^verbatim>\<open>Date.now()\<close>.
\<close>

definition welcome_effect :: "nat \<Rightarrow> session \<Rightarrow> session" where
  "welcome_effect now s =
     (case uploadedFile s of
        None \<Rightarrow> s
      | Some f \<Rightarrow>
          if extractedText s \<noteq> [] \<and> length (messages s) = 0
          then s\<lparr>messages := [welcomeMessage now (file_name f)]\<rparr>
          else s)"

definition clearChat :: "nat \<Rightarrow> jsstring \<Rightarrow> session \<Rightarrow> session" where
  "clearChat now fileName s = s\<lparr>messages := [welcomeMessage now fileName], chat_error := None\<rparr>"

definition chat_not_configured_message :: jsstring where
  "chat_not_configured_message = js ''Gemini AI is not configured. Please check your API key.''"

definition chat_no_text_message :: jsstring where
  "chat_no_text_message = js ''No document text available. Please upload a document first.''"

definition apology :: jsstring where
  "apology = js ''I apologize, but I encountered an error processing your question. Please try again or rephrase your question.''"

definition failed_response_message :: jsstring where
  "failed_response_message = js ''Failed to get response''"

text \<open>
  \<^verbatim>\<open>handleSubmit\<close> up to the \<^verbatim>\<open>await\<close>. The second component is the call of
  \<^verbatim>\<open>GeminiService.askQuestion\<close> that is made (document text, question, previous
  context), or \<open>None\<close> when the handler returns without calling.
\<close>

definition handleSubmit_begin ::
  "'a platform_scheme \<Rightarrow> nat \<Rightarrow> session \<Rightarrow> session \<times> (jsstring \<times> jsstring \<times> jsstring option) option" where
  "handleSubmit_begin P now s =
     (if trim (input s) = [] \<or> isLoading s then (s, None)
      else if \<not> isConfigured P then (s\<lparr>chat_error := Some chat_not_configured_message\<rparr>, None)
      else if extractedText s = [] then (s\<lparr>chat_error := Some chat_no_text_message\<rparr>, None)
      else
        (let userMessage =
               \<lparr>msg_id = now, msg_type = user, content = trim (input s), timestamp = now\<rparr>
         in (s\<lparr>messages := messages s @ [userMessage], input := [], isLoading := True,
               chat_error := None\<rparr>,
             Some (extractedText s, content userMessage, Some (analysis s)))))"

text \<open>\<^verbatim>\<open>handleSubmit\<close> from the moment the call settles, at time \<open>now\<close>.\<close>

definition handleSubmit_settle :: "nat \<Rightarrow> thrown + jsstring \<Rightarrow> session \<Rightarrow> session" where
  "handleSubmit_settle now outcome s =
     (case outcome of
        Inr response \<Rightarrow>
          s\<lparr>messages := messages s @
               [\<lparr>msg_id = now + 1, msg_type = assistant, content = response, timestamp = now\<rparr>],
            isLoading := False\<rparr>
      | Inl error \<Rightarrow>
          s\<lparr>chat_error := Some (if instanceof_Error error then message error
                                else failed_response_message),
            messages := messages s @
               [\<lparr>msg_id = now + 1, msg_type = assistant, content = apology, timestamp = now\<rparr>],
            isLoading := False\<rparr>)"

text \<open>A submission whose call settles before any other handler runs.\<close>

definition handleSubmit :: "'a platform_scheme \<Rightarrow> nat \<Rightarrow> nat \<Rightarrow> session \<Rightarrow> session" where
  "handleSubmit P now later s =
     (case handleSubmit_begin P now s of
        (s', None) \<Rightarrow> s'
      | (s', Some (documentText, question, previousContext)) \<Rightarrow>
          handleSubmit_settle later (askQuestion P documentText question previousContext) s')"

section \<open>The events that the page delivers\<close>

text \<open>
  \<^verbatim>\<open>onDrop\<close> of the upload area, up to the \<^verbatim>\<open>await\<close> of the extraction: a file of
  another type or of more than 50 MB is refused before the callback of App is called (the
  second component tells whether the extraction starts). From the moment the extraction
  settles: the text is handed to App when it has at least 50 code units.
\<close>

definition onDrop_begin :: "File \<Rightarrow> session \<Rightarrow> session \<times> bool" where
  "onDrop_begin f s =
     (if file_type f \<noteq> js ''application/pdf'' then (s, False)
      else if file_size f > 50 * 1024 * 1024 then (s, False)
      else (handleFileUpload f s, True))"

definition onDrop_settle :: "thrown + jsstring \<Rightarrow> session \<Rightarrow> session" where
  "onDrop_settle outcome s =
     (case outcome of
        Inl error \<Rightarrow> s
      | Inr text \<Rightarrow> if text = [] \<or> length text < 50 then s else handleTextExtracted text s)"

text \<open>
  The form of the chat is rendered when the service is configured and text is extracted;
  its text field is disabled while an answer is loading and its submit button while an
  answer is loading or the input is blank. A submit event, by the button or by the Enter
  key, needs the button enabled. The chat itself is rendered once a file is uploaded.
\<close>

definition submit_enabled :: "'a platform_scheme \<Rightarrow> session \<Rightarrow> bool" where
  "submit_enabled P s \<longleftrightarrow>
     uploadedFile s \<noteq> None \<and> isConfigured P \<and> extractedText s \<noteq> [] \<and>
     \<not> (isLoading s \<or> trim (input s) = [])"

text \<open>
  A configuration of the running page: the state of the components, whether an
  extraction is awaited, and the calls of the service that have not settled yet (the text
  of each analysis call, the arguments of each question call).
\<close>

record config =
  state :: session
  extracting :: bool
  analysis_calls :: "jsstring list"
  question_calls :: "(jsstring \<times> jsstring \<times> jsstring option) list"

definition initial_config :: config where
  "initial_config =
     \<lparr>state = initial_session, extracting = False, analysis_calls = [], question_calls = []\<rparr>"

definition issued :: "'a option \<Rightarrow> 'a list" where
  "issued call = (case call of None \<Rightarrow> [] | Some x \<Rightarrow> [x])"

text \<open>
  The configurations that the page can reach, one rule for each event. App renders the
  upload area only while \<^verbatim>\<open>uploadedFile\<close> is null, and the analysis pane and the chat
  only when it is not. A control that a render condition hides or disables delivers no
  event; where a rule asks for less than the render condition, it admits more
  configurations, never fewer. The button "Re-analyze Document" is rendered inside the
  card of a configured service when no analysis is marked as running and the stored result
  is truthy, which null is not. The service may settle a call with any outcome.
\<close>

inductive reachable :: "'a platform_scheme \<Rightarrow> config \<Rightarrow> bool"
  for P :: "'a platform_scheme" where
  start: "reachable P initial_config"
| drop:
    "reachable P c \<Longrightarrow> uploadedFile (state c) = None \<Longrightarrow>
     reachable P (c\<lparr>state := fst (onDrop_begin f (state c)),
                    extracting := extracting c \<or> snd (onDrop_begin f (state c))\<rparr>)"
| extraction_settles:
    "reachable P c \<Longrightarrow> extracting c \<Longrightarrow>
     reachable P (c\<lparr>state := onDrop_settle (extractTextFromPDF loaded) (state c),
                    extracting := False\<rparr>)"
| welcome_message:
    "reachable P c \<Longrightarrow> uploadedFile (state c) \<noteq> None \<Longrightarrow>
     reachable P (c\<lparr>state := welcome_effect now (state c)\<rparr>)"
| auto_analyze:
    "reachable P c \<Longrightarrow> uploadedFile (state c) \<noteq> None \<Longrightarrow>
     reachable P (c\<lparr>state := fst (autoAnalyze_effect P (state c)),
                    analysis_calls :=
                      analysis_calls c @ issued (snd (autoAnalyze_effect P (state c)))\<rparr>)"
| analyze_click:
    "reachable P c \<Longrightarrow> uploadedFile (state c) \<noteq> None \<Longrightarrow> isConfigured P \<Longrightarrow>
     reachable P (c\<lparr>state := fst (DocumentAnalysis_analyzeDocument_begin (state c)),
                    analysis_calls :=
                      analysis_calls c @
                      issued (snd (DocumentAnalysis_analyzeDocument_begin (state c)))\<rparr>)"
| dismiss_click:
    "reachable P c \<Longrightarrow> uploadedFile (state c) \<noteq> None \<Longrightarrow> da_error (state c) \<noteq> None \<Longrightarrow>
     reachable P (c\<lparr>state := (state c)\<lparr>da_error := None\<rparr>\<rparr>)"
| reanalyze:
    "reachable P c \<Longrightarrow> uploadedFile (state c) \<noteq> None \<Longrightarrow> isConfigured P \<Longrightarrow>
     \<not> isAnalyzing (state c) \<Longrightarrow> da_analysis (state c) \<noteq> JNull \<Longrightarrow>
     reachable P (c\<lparr>state := fst (reanalyze_click (state c)),
                    analysis_calls := analysis_calls c @ issued (snd (reanalyze_click (state c)))\<rparr>)"
| analysis_settles:
    "reachable P c \<Longrightarrow> analysis_calls c = pre @ t # post \<Longrightarrow>
     reachable P (c\<lparr>state := DocumentAnalysis_analyzeDocument_settle P outcome (state c),
                    analysis_calls := pre @ post\<rparr>)"
| input_change:
    "reachable P c \<Longrightarrow> uploadedFile (state c) \<noteq> None \<Longrightarrow>
     reachable P (c\<lparr>state := (state c)\<lparr>input := v\<rparr>\<rparr>)"
| submit:
    "reachable P c \<Longrightarrow> submit_enabled P (state c) \<Longrightarrow>
     reachable P (c\<lparr>state := fst (handleSubmit_begin P now (state c)),
                    question_calls :=
                      question_calls c @ issued (snd (handleSubmit_begin P now (state c)))\<rparr>)"
| question_settles:
    "reachable P c \<Longrightarrow> question_calls c = pre @ q # post \<Longrightarrow>
     reachable P (c\<lparr>state := handleSubmit_settle now answered (state c),
                    question_calls := pre @ post\<rparr>)"
| clear_chat:
    "reachable P c \<Longrightarrow> uploadedFile (state c) = Some f \<Longrightarrow>
     reachable P (c\<lparr>state := clearChat now (file_name f) (state c)\<rparr>)"


section \<open>A reference for \<^verbatim>\<open>JSON.parse\<close>\<close>

text \<open>
  \<^verbatim>\<open>JSON.parse\<close> is a parameter of the model (\<open>JSON_parse\<close> of the platform), and
  the theorems hold for every such function. For concrete runs, \<open>parse_JSON\<close> follows
  the JSON grammar of ECMA-404 by recursive descent: it is the instance used in the
  examples. The recursion of values is bounded by a depth that no text can exceed.
\<close>

definition json_space :: "code_unit \<Rightarrow> bool" where
  "json_space c \<longleftrightarrow> c = 0x20 \<or> c = 0x09 \<or> c = 0x0A \<or> c = 0x0D"

definition skip_space :: "jsstring \<Rightarrow> jsstring" where
  "skip_space = dropWhile json_space"

definition is_digit :: "code_unit \<Rightarrow> bool" where
  "is_digit c \<longleftrightarrow> 0x30 \<le> c \<and> c \<le> 0x39"

definition hex_digit :: "code_unit \<Rightarrow> code_unit option" where
  "hex_digit c =
     (if 0x30 \<le> c \<and> c \<le> 0x39 then Some (c - 0x30)
      else if 0x41 \<le> c \<and> c \<le> 0x46 then Some (c - 0x37)
      else if 0x61 \<le> c \<and> c \<le> 0x66 then Some (c - 0x57)
      else None)"

definition hex4 :: "code_unit \<Rightarrow> code_unit \<Rightarrow> code_unit \<Rightarrow> code_unit \<Rightarrow> code_unit option" where
  "hex4 a b c d =
     (case (hex_digit a, hex_digit b, hex_digit c, hex_digit d) of
        (Some x, Some y, Some z, Some w) \<Rightarrow> Some (((x * 16 + y) * 16 + z) * 16 + w)
      | _ \<Rightarrow> None)"

text \<open>The character that a one-letter escape denotes.\<close>

definition unescape :: "code_unit \<Rightarrow> code_unit option" where
  "unescape e =
     (if e = 0x22 \<or> e = 0x5C \<or> e = 0x2F then Some e
      else if e = 0x62 then Some 0x08
      else if e = 0x66 then Some 0x0C
      else if e = 0x6E then Some 0x0A
      else if e = 0x72 then Some 0x0D
      else if e = 0x74 then Some 0x09
      else None)"

text \<open>The characters of a string after its opening quote, up to the closing quote.\<close>

fun parse_chars :: "jsstring \<Rightarrow> (jsstring \<times> jsstring) option" where
  "parse_chars [] = None"
| "parse_chars (c # cs) =
     (if c = 0x22 then Some ([], cs)
      else if c = 0x5C then
        (case cs of
           [] \<Rightarrow> None
         | e # r \<Rightarrow>
             if e = 0x75 then
               (case r of
                  h1 # h2 # h3 # h4 # r' \<Rightarrow>
                    (case hex4 h1 h2 h3 h4 of
                       None \<Rightarrow> None
                     | Some u \<Rightarrow> map_option (\<lambda>(s, rest). (u # s, rest)) (parse_chars r'))
                | _ \<Rightarrow> None)
             else
               (case unescape e of
                  None \<Rightarrow> None
                | Some u \<Rightarrow> map_option (\<lambda>(s, rest). (u # s, rest)) (parse_chars r)))
      else if c < 0x20 then None
      else map_option (\<lambda>(s, rest). (c # s, rest)) (parse_chars cs))"

text \<open>A nonempty run of digits.\<close>

definition digits1 :: "jsstring \<Rightarrow> (jsstring \<times> jsstring) option" where
  "digits1 s =
     (if takeWhile is_digit s = [] then None
      else Some (takeWhile is_digit s, dropWhile is_digit s))"

text \<open>The integer part: a single zero, or a nonzero digit and more digits.\<close>

definition int_part :: "jsstring \<Rightarrow> (jsstring \<times> jsstring) option" where
  "int_part s =
     (case s of
        [] \<Rightarrow> None
      | c # r \<Rightarrow>
          if c = 0x30 then Some ([c], r)
          else if is_digit c then Some (c # takeWhile is_digit r, dropWhile is_digit r)
          else None)"

definition frac_part :: "jsstring \<Rightarrow> (jsstring \<times> jsstring) option" where
  "frac_part s =
     (case s of
        c # r \<Rightarrow>
          if c = 0x2E then map_option (\<lambda>(ds, rest). (c # ds, rest)) (digits1 r)
          else Some ([], s)
      | [] \<Rightarrow> Some ([], s))"

definition exp_part :: "jsstring \<Rightarrow> (jsstring \<times> jsstring) option" where
  "exp_part s =
     (case s of
        c # r \<Rightarrow>
          if c = 0x65 \<or> c = 0x45 then
            (case r of
               g # r' \<Rightarrow>
                 if g = 0x2B \<or> g = 0x2D
                 then map_option (\<lambda>(ds, rest). (c # g # ds, rest)) (digits1 r')
                 else map_option (\<lambda>(ds, rest). (c # ds, rest)) (digits1 r)
             | [] \<Rightarrow> None)
          else Some ([], s)
      | [] \<Rightarrow> Some ([], s))"

definition parse_number :: "jsstring \<Rightarrow> (jsstring \<times> jsstring) option" where
  "parse_number s =
     (let (sign, s1) = (case s of c # r \<Rightarrow> if c = 0x2D then ([c], r) else ([], s) | [] \<Rightarrow> ([], s))
      in case int_part s1 of
           None \<Rightarrow> None
         | Some (i, s2) \<Rightarrow>
             (case frac_part s2 of
                None \<Rightarrow> None
              | Some (f, s3) \<Rightarrow>
                  (case exp_part s3 of
                     None \<Rightarrow> None
                   | Some (e, s4) \<Rightarrow> Some (sign @ i @ f @ e, s4))))"

text \<open>
  A value at the head of the text, the elements of an array after its first bracket, and
  the members of an object after its first brace. The first argument bounds the depth.
\<close>

fun parse_value :: "nat \<Rightarrow> jsstring \<Rightarrow> (json \<times> jsstring) option"
  and parse_elements :: "nat \<Rightarrow> jsstring \<Rightarrow> (json list \<times> jsstring) option"
  and parse_members :: "nat \<Rightarrow> jsstring \<Rightarrow> ((jsstring \<times> json) list \<times> jsstring) option"
where
  "parse_value 0 s = None"
| "parse_value (Suc n) s =
     (case s of
        [] \<Rightarrow> None
      | c # cs \<Rightarrow>
          if c = 0x7B then
            (case skip_space cs of
               [] \<Rightarrow> None
             | d # ds \<Rightarrow>
                 if d = 0x7D then Some (JObject [], ds)
                 else map_option (\<lambda>(ms, rest). (JObject ms, rest)) (parse_members n (d # ds)))
          else if c = 0x5B then
            (case skip_space cs of
               [] \<Rightarrow> None
             | d # ds \<Rightarrow>
                 if d = 0x5D then Some (JArray [], ds)
                 else map_option (\<lambda>(vs, rest). (JArray vs, rest)) (parse_elements n (d # ds)))
          else if c = 0x22 then map_option (\<lambda>(str, rest). (JString str, rest)) (parse_chars cs)
          else if startsWith s (js ''true'') then Some (JBool True, drop 4 s)
          else if startsWith s (js ''false'') then Some (JBool False, drop 5 s)
          else if startsWith s (js ''null'') then Some (JNull, drop 4 s)
          else map_option (\<lambda>(num, rest). (JNumber num, rest)) (parse_number s))"
| "parse_elements 0 s = None"
| "parse_elements (Suc n) s =
     (case parse_value n s of
        None \<Rightarrow> None
      | Some (v, r) \<Rightarrow>
          (case skip_space r of
             [] \<Rightarrow> None
           | c # cs \<Rightarrow>
               if c = 0x5D then Some ([v], cs)
               else if c = 0x2C
               then map_option (\<lambda>(vs, rest). (v # vs, rest)) (parse_elements n (skip_space cs))
               else None))"
| "parse_members 0 s = None"
| "parse_members (Suc n) s =
     (case s of
        [] \<Rightarrow> None
      | q # cs \<Rightarrow>
          if q \<noteq> 0x22 then None
          else
            (case parse_chars cs of
               None \<Rightarrow> None
             | Some (key, r) \<Rightarrow>
                 (case skip_space r of
                    [] \<Rightarrow> None
                  | colon # r1 \<Rightarrow>
                      if colon \<noteq> 0x3A then None
                      else
                        (case parse_value n (skip_space r1) of
                           None \<Rightarrow> None
                         | Some (v, r2) \<Rightarrow>
                             (case skip_space r2 of
                                [] \<Rightarrow> None
                              | c # r3 \<Rightarrow>
                                  if c = 0x7D then Some ([(key, v)], r3)
                                  else if c = 0x2C
                                  then map_option (\<lambda>(ms, rest). ((key, v) # ms, rest))
                                         (parse_members n (skip_space r3))
                                  else None)))))"

definition parse_JSON :: "jsstring \<Rightarrow> json option" where
  "parse_JSON text =
     (case parse_value (2 * length text + 2) (skip_space text) of
        None \<Rightarrow> None
      | Some (v, rest) \<Rightarrow> if skip_space rest = [] then Some v else None)"

section \<open>A reference for \<^verbatim>\<open>JSON.stringify\<close>\<close>

text \<open>
  \<^verbatim>\<open>JSON.stringify(value, null, 2)\<close> is a parameter of the model as well
  (\<open>JSON_stringify\<close>); \<open>stringify_JSON\<close> is the instance used in the examples. It
  writes a number by its lexeme and indents by two spaces.
\<close>

definition hex_char :: "code_unit \<Rightarrow> code_unit" where
  "hex_char d = (if d < 10 then 0x30 + d else 0x57 + d)"

definition quote_char :: "code_unit \<Rightarrow> jsstring" where
  "quote_char c =
     (if c = 0x22 then [0x5C, 0x22]
      else if c = 0x5C then [0x5C, 0x5C]
      else if c = 0x08 then [0x5C, 0x62]
      else if c = 0x0C then [0x5C, 0x66]
      else if c = 0x0A then [0x5C, 0x6E]
      else if c = 0x0D then [0x5C, 0x72]
      else if c = 0x09 then [0x5C, 0x74]
      else if c < 0x20 then [0x5C, 0x75, 0x30, 0x30, hex_char (c div 16), hex_char (c mod 16)]
      else [c])"

definition quote :: "jsstring \<Rightarrow> jsstring" where
  "quote s = 0x22 # concat (map quote_char s) @ [0x22]"

fun stringify :: "jsstring \<Rightarrow> json \<Rightarrow> jsstring" where
  "stringify ind JNull = js ''null''"
| "stringify ind (JBool b) = (if b then js ''true'' else js ''false'')"
| "stringify ind (JNumber n) = n"
| "stringify ind (JString s) = quote s"
| "stringify ind (JArray vs) =
     (if vs = [] then js ''[]''
      else js ''['' @ [LF] @
           join (js '','' @ [LF]) (map (\<lambda>v. ind @ js ''  '' @ stringify (ind @ js ''  '') v) vs) @
           [LF] @ ind @ js '']'')"
| "stringify ind (JObject ms) =
     (if ms = [] then js ''{}''
      else js ''{'' @ [LF] @
           join (js '','' @ [LF])
             (map (\<lambda>m. ind @ js ''  '' @ quote (fst m) @ js '': '' @
                        stringify (ind @ js ''  '') (snd m)) ms) @
           [LF] @ ind @ js ''}'')"

definition stringify_JSON :: "json \<Rightarrow> jsstring" where
  "stringify_JSON v = stringify [] v"

section \<open>Example runs\<close>

text \<open>A configured platform whose service answers every prompt with \<open>reply\<close>.\<close>

definition replying_platform :: "jsstring \<Rightarrow> platform" where
  "replying_platform reply =
     \<lparr>API_KEY = Some (js ''key''), generateContent = (\<lambda>prompt. Inr reply),
      JSON_parse = parse_JSON, JSON_stringify = stringify_JSON\<rparr>"

text \<open>A configured platform whose service call fails (a network error).\<close>

definition failing_platform :: platform where
  "failing_platform =
     \<lparr>API_KEY = Some (js ''key''),
      generateContent = (\<lambda>prompt. Inl (Error (js ''Failed to fetch''))),
      JSON_parse = parse_JSON, JSON_stringify = stringify_JSON\<rparr>"

definition lease_pdf :: File where
  "lease_pdf = \<lparr>file_name = js ''lease.pdf'', file_type = js ''application/pdf'', file_size = 2048\<rparr>"

definition lease_pages :: "text_item list list" where
  "lease_pages = [[TextItem (js ''This lease is made between Alice,''),
                   TextItem (js ''the landlord, and Bob, the tenant.'')]]"

definition lease_text :: jsstring where
  "lease_text = js ''This lease is made between Alice, the landlord, and Bob, the tenant.''"

text \<open>A reply of the service with all eight fields, and the result it denotes.\<close>

definition lease_reply :: jsstring where
  \<open>lease_reply = js ''{"summary":"A lease.","keyPoints":["Rent is due monthly"],"legalIssues":[],"recommendations":[],"documentType":"Lease","parties":["Alice","Bob"],"dates":[],"jurisdiction":"Not specified"}''\<close>

definition lease_analysis :: AnalysisResult where
  "lease_analysis =
     \<lparr>summary = js ''A lease.'', keyPoints = [js ''Rent is due monthly''], legalIssues = [],
      recommendations = [], documentType = js ''Lease'', parties = [js ''Alice'', js ''Bob''],
      dates = [], jurisdiction = js ''Not specified''\<rparr>"

text \<open>
  The session after the lease was uploaded and extracted and the chat was greeted, while
  the analysis that started by itself is pending.
\<close>

definition pending_session :: session where
  "pending_session =
     fst (autoAnalyze_effect (replying_platform lease_reply)
       (welcome_effect 1000
          (onDrop_settle (extractTextFromPDF (Inr lease_pages))
             (fst (onDrop_begin lease_pdf initial_session)))))"

text \<open>The session after the service replied to that analysis.\<close>

definition ready_session :: session where
  "ready_session =
     DocumentAnalysis_analyzeDocument_settle (replying_platform lease_reply)
       (analyzeDocument (replying_platform lease_reply) lease_text) pending_session"

definition ready_config :: config where
  "ready_config =
     \<lparr>state = ready_session, extracting = False, analysis_calls = [], question_calls = []\<rparr>"

section \<open>Trimming\<close>

lemma isWhiteSpace_LF: "isWhiteSpace LF"
  by (simp add: isWhiteSpace_def)

lemma not_isWhiteSpace_backtick: "\<not> isWhiteSpace 0x60"
  by (simp add: isWhiteSpace_def)

lemma trim_Nil: "trim [] = []"
  by (simp add: trim_def)

lemma trim_Cons_space: "isWhiteSpace c \<Longrightarrow> trim (c # s) = trim s"
  by (simp add: trim_def)

lemma trim_snoc_space:
  assumes "isWhiteSpace c"
  shows "trim (s @ [c]) = trim s"
proof (cases "\<forall>x\<in>set s. isWhiteSpace x")
  case True
  have a: "dropWhile isWhiteSpace s = []"
    using True by (simp only: dropWhile_eq_Nil_conv)
  have b: "dropWhile isWhiteSpace (s @ [c]) = []"
    unfolding dropWhile_eq_Nil_conv using True assms by auto
  show ?thesis unfolding trim_def a b ..
next
  case False
  then obtain x where "x \<in> set s" "\<not> isWhiteSpace x" by blast
  then have "dropWhile isWhiteSpace (s @ [c]) = dropWhile isWhiteSpace s @ [c]"
    by (rule dropWhile_append1)
  then show ?thesis using assms by (simp add: trim_def)
qed

text \<open>A string with a visible character at each end is left as it is.\<close>

lemma trim_keeps:
  assumes "s \<noteq> []" "\<not> isWhiteSpace (hd s)" "\<not> isWhiteSpace (last s)"
  shows "trim s = s"
proof -
  from assms have "dropWhile isWhiteSpace s = s"
    by (cases s) simp_all
  moreover from assms have "dropWhile isWhiteSpace (rev s) = rev s"
    by (cases "rev s") (simp_all add: last_rev [symmetric])
  ultimately show ?thesis by (simp add: trim_def)
qed

lemma trim_ends:
  assumes "trim s \<noteq> []"
  shows "\<not> isWhiteSpace (hd (trim s)) \<and> \<not> isWhiteSpace (last (trim s))"
proof -
  define t where "t = dropWhile isWhiteSpace s"
  define u where "u = dropWhile isWhiteSpace (rev t)"
  have ts: "trim s = rev u" by (simp add: trim_def t_def u_def)
  with assms have u: "u \<noteq> []" by simp
  then have hu: "\<not> isWhiteSpace (hd u)"
    unfolding u_def by (rule hd_dropWhile)
  from u have t: "t \<noteq> []" by (auto simp: u_def)
  then have ht: "\<not> isWhiteSpace (hd t)"
    unfolding t_def by (rule hd_dropWhile)
  obtain v where v: "rev t = v @ u"
    unfolding u_def by (metis takeWhile_dropWhile_id)
  with u have "last u = last (rev t)" by simp
  also have "\<dots> = hd t" using t by (simp add: last_rev)
  finally have lu: "\<not> isWhiteSpace (last u)" using ht by simp
  show ?thesis using u hu lu by (simp add: ts hd_rev last_rev)
qed

lemma trim_idem: "trim (trim s) = trim s"
proof (cases "trim s = []")
  case True
  then show ?thesis by (simp add: trim_Nil)
next
  case False
  then show ?thesis using trim_ends [of s] by (intro trim_keeps) simp_all
qed

section \<open>The reply of the service, cleaned\<close>

text \<open>A reply without fences, apart from the whitespace around it, is only trimmed.\<close>

lemma cleanGeminiResponse_unfenced:
  assumes "\<not> startsWith (trim s) (js ''```'')" "\<not> endsWith (trim s) (js ''```'')"
  shows "cleanGeminiResponse s = trim s"
proof -
  have "\<not> startsWith (trim s) (js ''```json'')"
    using assms(1) by (auto simp: startsWith_def js_def dest: arg_cong [where f = "take 3"])
  with assms show ?thesis
    by (simp add: cleanGeminiResponse_def trim_idem)
qed

lemma cleanGeminiResponse_fence:
  assumes "marker = js ''```json'' \<or> marker = js ''```''"
  shows "cleanGeminiResponse (marker @ LF # s @ LF # js ''```'') = trim s"
proof -
  let ?body = "LF # s @ LF # js ''```''"
  let ?r = "marker @ ?body"
  have t: "trim ?r = ?r"
    using assms by (intro trim_keeps) (auto simp: js_def not_isWhiteSpace_backtick)
  have a: "(if startsWith ?r (js ''```json'') then drop 7 ?r
            else if startsWith ?r (js ''```'') then drop 3 ?r else ?r) = ?body"
    using assms by (auto simp: startsWith_def js_def)
  have c: "endsWith ?body (js ''```'')"
    by (simp add: endsWith_def js_def)
  have d: "substring ?body 0 (length ?body - 3) = LF # s @ [LF]"
    by (simp add: substring_def js_def)
  have "cleanGeminiResponse ?r = trim (LF # s @ [LF])"
    unfolding cleanGeminiResponse_def Let_def t a using c d by simp
  also have "\<dots> = trim s"
    using trim_snoc_space [of LF "LF # s"] by (simp add: trim_Cons_space isWhiteSpace_LF)
  finally show ?thesis .
qed

text \<open>
  C5. Cleaning removes one leading marker (\<^verbatim>\<open>```json\<close> or \<^verbatim>\<open>```\<close>) and one trailing
  marker: for every body \<open>s\<close>, whatever its first and last characters, the reply that
  wraps \<open>s\<close> in a fenced block is cleaned to exactly the trimmed \<open>s\<close>, so that
  \<^verbatim>\<open>JSON.parse\<close> receives the same text as for the body without fences.
\<close>

theorem cleanGeminiResponse_fenced:
  "cleanGeminiResponse (js ''```json'' @ LF # s @ LF # js ''```'') = trim s \<and>
   cleanGeminiResponse (js ''```'' @ LF # s @ LF # js ''```'') = trim s \<and>
   JSON_parse P (cleanGeminiResponse (js ''```json'' @ LF # s @ LF # js ''```'')) =
     JSON_parse P (trim s)"
  by (simp add: cleanGeminiResponse_fence)

theorem cleanGeminiResponse_fenced_witness:
  \<open>cleanGeminiResponse (js ''```json'' @ LF # js ''{"summary":"x"}'' @ LF # js ''```'') =
     js ''{"summary":"x"}'' \<and>
   parse_JSON (cleanGeminiResponse (js ''```json'' @ LF # js ''{"summary":"x"}'' @ LF # js ''```'')) =
     Some (JObject [(js ''summary'', JString (js ''x''))])\<close>
proof -
  have t: \<open>trim (js ''{"summary":"x"}'') = js ''{"summary":"x"}''\<close>
    by (rule trim_keeps) (simp_all add: js_def isWhiteSpace_def)
  have p: \<open>parse_JSON (js ''{"summary":"x"}'') = Some (JObject [(js ''summary'', JString (js ''x''))])\<close>
    by code_simp
  show ?thesis
    using cleanGeminiResponse_fenced [of \<open>js ''{"summary":"x"}''\<close> "replying_platform []"]
    by (simp add: t p)
qed

section \<open>GeminiService.analyzeDocument\<close>

text \<open>
  C1. When the service is configured and its call succeeds, and \<^verbatim>\<open>JSON.parse\<close> throws
  on the cleaned reply, \<^verbatim>\<open>analyzeDocument\<close> does not throw: it returns the fallback
  object, for every document text and every such reply.
\<close>

theorem analyzeDocument_parse_failure:
  assumes "model_present P"
    and "generateContent P (analysis_prompt text) = Inr reply"
    and "JSON_parse P (cleanGeminiResponse reply) = None"
  shows "analyzeDocument P text = Inr (object_of fallback)"
  using assms by (simp add: analyzeDocument_def)

text \<open>An instance: the reply is malformed JSON inside a fenced block.\<close>

theorem analyzeDocument_parse_failure_witness:
  "model_present (replying_platform (js ''```json'' @ LF # js ''{oops'' @ LF # js ''```'')) \<and>
   JSON_parse (replying_platform (js ''```json'' @ LF # js ''{oops'' @ LF # js ''```''))
     (cleanGeminiResponse (js ''```json'' @ LF # js ''{oops'' @ LF # js ''```'')) = None \<and>
   analyzeDocument (replying_platform (js ''```json'' @ LF # js ''{oops'' @ LF # js ''```''))
     lease_text = Inr (object_of fallback)"
proof -
  let ?reply = "js ''```json'' @ LF # js ''{oops'' @ LF # js ''```''"
  have m: "model_present (replying_platform ?reply)"
    by (simp add: model_present_def replying_platform_def js_def)
  have g: "generateContent (replying_platform ?reply) (analysis_prompt lease_text) = Inr ?reply"
    by (simp add: replying_platform_def)
  have t: "trim (js ''{oops'') = js ''{oops''"
    by (rule trim_keeps) (simp_all add: js_def isWhiteSpace_def)
  have "parse_JSON (js ''{oops'') = None"
    by code_simp
  then have p: "JSON_parse (replying_platform ?reply) (cleanGeminiResponse ?reply) = None"
    by (simp add: replying_platform_def cleanGeminiResponse_fence t)
  from m p analyzeDocument_parse_failure [OF m g p] show ?thesis by simp
qed

text \<open>
  C2. When the call of the service itself fails, whatever it throws, \<^verbatim>\<open>analyzeDocument\<close>
  throws an Error with its own message, and so it does when no usable key is configured;
  it does not return the fallback object, nor any other value. At the caller, the
  component stores the message as its error and leaves its analysis as it was, where a
  parse failure stores the fallback as the analysis.
\<close>

theorem analyzeDocument_call_failure:
  assumes "\<not> model_present P \<or> generateContent P (analysis_prompt text) = Inl e"
  shows "analyzeDocument P text =
           Inl (Error (if model_present P then analyze_failed_message
                       else not_configured_message)) \<and>
         analyzeDocument P text \<noteq> Inr (object_of fallback) \<and>
         da_error (DocumentAnalysis_analyzeDocument_settle P (analyzeDocument P text) s) =
           Some (if model_present P then analyze_failed_message else not_configured_message) \<and>
         da_analysis (DocumentAnalysis_analyzeDocument_settle P (analyzeDocument P text) s) =
           da_analysis s"
  using assms
  by (auto simp: analyzeDocument_def DocumentAnalysis_analyzeDocument_settle_def
      instanceof_Error_def)

theorem analyzeDocument_call_failure_witness:
  "model_present failing_platform \<and>
   generateContent failing_platform (analysis_prompt lease_text) =
     Inl (Error (js ''Failed to fetch'')) \<and>
   analyzeDocument failing_platform lease_text = Inl (Error analyze_failed_message) \<and>
   analyzeDocument failing_platform lease_text \<noteq> Inr (object_of fallback)"
proof -
  have m: "model_present failing_platform"
    by (simp add: model_present_def failing_platform_def js_def)
  have g: "generateContent failing_platform (analysis_prompt lease_text) =
             Inl (Error (js ''Failed to fetch''))"
    by (simp add: failing_platform_def)
  from m g analyzeDocument_call_failure [of failing_platform lease_text
      "Error (js ''Failed to fetch'')" initial_session]
  show ?thesis by simp
qed

text \<open>
  C10. A reply whose cleaned text parses is not validated against the interface: the
  parsed value is returned as it is, whichever fields it has. The fallback object is
  returned when \<^verbatim>\<open>JSON.parse\<close> throws, and otherwise only if the parsed value is
  that very object.
\<close>

theorem analyzeDocument_no_validation:
  assumes "model_present P"
    and "generateContent P (analysis_prompt text) = Inr reply"
  shows "(JSON_parse P (cleanGeminiResponse reply) = Some v \<longrightarrow> analyzeDocument P text = Inr v) \<and>
         (JSON_parse P (cleanGeminiResponse reply) = None \<longrightarrow>
            analyzeDocument P text = Inr (object_of fallback)) \<and>
         (analyzeDocument P text = Inr (object_of fallback) \<longrightarrow>
            JSON_parse P (cleanGeminiResponse reply) = None \<or>
            JSON_parse P (cleanGeminiResponse reply) = Some (object_of fallback))"
  using assms by (auto simp: analyzeDocument_def split: option.splits)

lemma parse_JSON_examples:
  "parse_JSON (js ''{}'') = Some (JObject [])"
  "parse_JSON (js ''[]'') = Some (JArray [])"
  "parse_JSON (js ''null'') = Some JNull"
  by code_simp+

lemma cleanGeminiResponse_examples:
  "cleanGeminiResponse (js ''{}'') = js ''{}''"
  "cleanGeminiResponse (js ''[]'') = js ''[]''"
  "cleanGeminiResponse (js ''null'') = js ''null''"
  by code_simp+

theorem analyzeDocument_no_validation_witness:
  "analyzeDocument (replying_platform (js ''{}'')) lease_text = Inr (JObject []) \<and>
   analyzeDocument (replying_platform (js ''[]'')) lease_text = Inr (JArray []) \<and>
   analyzeDocument (replying_platform (js ''null'')) lease_text = Inr JNull \<and>
   JObject [] \<noteq> object_of fallback"
proof -
  have m: "model_present (replying_platform r)" for r
    by (simp add: model_present_def replying_platform_def js_def)
  have g: "generateContent (replying_platform r) (analysis_prompt lease_text) = Inr r" for r
    by (simp add: replying_platform_def)
  have p: "JSON_parse (replying_platform r) = parse_JSON" for r
    by (simp add: replying_platform_def)
  show ?thesis
    using analyzeDocument_no_validation [OF m g, of "js ''{}''" "JObject []"]
      analyzeDocument_no_validation [OF m g, of "js ''[]''" "JArray []"]
      analyzeDocument_no_validation [OF m g, of "js ''null''" JNull]
    by (simp add: p parse_JSON_examples cleanGeminiResponse_examples object_of_def)
qed

section \<open>Text extraction\<close>

lemma set_replace_whitespace_runs:
  "set (replace_whitespace_runs s) \<subseteq> insert 0x20 {c \<in> set s. \<not> isWhiteSpace c}"
proof (induction s rule: replace_whitespace_runs.induct)
  case 1
  then show ?case by simp
next
  case (2 c cs)
  have "set (dropWhile isWhiteSpace cs) \<subseteq> set cs"
    by (rule set_dropWhileD [THEN subsetI])
  with 2 show ?case by (cases "isWhiteSpace c") auto
qed

lemma replace_blank_lines_no_line_feed: "LF \<notin> set s \<Longrightarrow> replace_blank_lines s = s"
  by (induction s) simp_all

lemma set_trim: "set (trim s) \<subseteq> set s"
  by (auto simp: trim_def dest!: set_dropWhileD)

text \<open>
  The first replacement turns every line feed into a space, so the second one never
  finds a match: the text returned holds no line feed at all.
\<close>

lemma cleanedText_no_line_feed:
  "cleanedText s = trim (replace_whitespace_runs s) \<and> LF \<notin> set (cleanedText s)"
proof -
  have n: "LF \<notin> set (replace_whitespace_runs s)"
    using set_replace_whitespace_runs [of s] by (auto simp: isWhiteSpace_LF)
  then have e: "cleanedText s = trim (replace_whitespace_runs s)"
    by (simp add: cleanedText_def replace_blank_lines_no_line_feed)
  with n set_trim [of "replace_whitespace_runs s"] show ?thesis by auto
qed

text \<open>
  C3. On the text of the example, and on the two pages "A B    C" and "D" joined by a
  blank line, the normalization returns "A B C D" on one line: the line feed that the
  example keeps between C and D is replaced by a space.
\<close>

theorem cleanedText_example:
  "cleanedText (js ''A B    C\<newline>\<newline>\<newline>D'') = js ''A B C D'' \<and>
   cleanedText (js ''A B    C\<newline>\<newline>\<newline>D'') \<noteq> js ''A B C\<newline>D'' \<and>
   cleanedText (fullText [[TextItem (js ''A B    C'')], [TextItem (js ''D'')]]) = js ''A B C D''"
  by code_simp

text \<open>
  Every failure of the extraction, the short text included, leaves the function as the
  TypeError of the shadowed constructor; a text of at least 50 code units is returned.
\<close>

lemma extractTextFromPDF_result:
  "extractTextFromPDF (Inr pages) =
     (if 50 \<le> length (cleanedText (fullText pages))
      then Inr (cleanedText (fullText pages))
      else Inl (TypeError not_a_constructor_message))"
  "extractTextFromPDF (Inl error) = Inl (TypeError not_a_constructor_message)"
  by (auto simp: extractTextFromPDF_def extractTextFromPDF_try_def throw_new_Error_def Let_def)

lemma cleanedText_lease:
  "cleanedText (fullText lease_pages) = lease_text"
  "length lease_text = 68"
  by code_simp+

lemma extractTextFromPDF_lease: "extractTextFromPDF (Inr lease_pages) = Inr lease_text"
  by (simp add: extractTextFromPDF_result cleanedText_lease)

text \<open>
  C4. A PDF of two pages, one with the single item "Scanned" and one without items, has
  the normalized text "Scanned" of 7 code units, and a PDF of two pages without items has
  the empty one. For both the extraction fails, but not with the Error of insufficient
  text: \<^verbatim>\<open>new Error(...)\<close> is applied to the icon that the module imports under the
  name \<^verbatim>\<open>Error\<close>, and the TypeError of that application is what the function throws.
\<close>

theorem extractTextFromPDF_short_text:
  "cleanedText (fullText [[TextItem (js ''Scanned'')], []]) = js ''Scanned'' \<and>
   extractTextFromPDF (Inr [[TextItem (js ''Scanned'')], []]) =
     Inl (TypeError not_a_constructor_message) \<and>
   extractTextFromPDF (Inr [[TextItem (js ''Scanned'')], []]) \<noteq>
     Inl (Error insufficient_text_message) \<and>
   cleanedText (fullText [[], []]) = [] \<and>
   extractTextFromPDF (Inr [[], []]) = Inl (TypeError not_a_constructor_message)"
proof -
  have "cleanedText (fullText [[TextItem (js ''Scanned'')], []]) = js ''Scanned''"
    "cleanedText (fullText [[], []]) = []"
    by code_simp+
  then show ?thesis
    by (simp add: extractTextFromPDF_result) (simp add: js_def)
qed

section \<open>Progress of the extraction\<close>

lemma progress_value_le_iff:
  "0 < numPages \<Longrightarrow> progress_value numPages p \<le> progress_value numPages q \<longleftrightarrow> p \<le> q"
  by (simp add: progress_value_def divide_le_cancel)

text \<open>
  C6, as the code has it. The value reported when a page completes is the number of that
  page over the number of pages, so the values follow the order of completion: they are
  non-decreasing exactly when the pages complete in ascending order.
\<close>

theorem progress_reports_sorted_iff:
  assumes "0 < numPages"
  shows "sorted (progress_reports numPages completed) \<longleftrightarrow> sorted completed"
  using assms by (simp add: progress_reports_def sorted_map progress_value_le_iff)

theorem progress_reports_sorted_iff_witness:
  "(0::nat) < 3 \<and> completion_order 3 [1, 2, 3] \<and> sorted (progress_reports 3 [1, 2, 3])"
proof -
  have "completion_order 3 [1, 2, 3]"
    by code_simp
  then show ?thesis
    using progress_reports_sorted_iff [of 3 "[1, 2, 3]"] by simp
qed

text \<open>
  C6 as stated fails: when the second of two pages completes first, the reports are
  100 and then 50.
\<close>

theorem progress_reports_counterexample:
  "completion_order 2 [2, 1] \<and> progress_reports 2 [2, 1] = [100, 50] \<and>
   \<not> sorted (progress_reports 2 [2, 1])"
  by code_simp

section \<open>The example run\<close>

lemma lease_text_not_empty: "lease_text \<noteq> []"
  by (simp add: lease_text_def js_def)

lemma replying_platform_configured:
  "model_present (replying_platform r)" "isConfigured (replying_platform r)"
  by (simp_all add: isConfigured_def model_present_def replying_platform_def js_def)

lemma lease_reply_parsed:
  "cleanGeminiResponse lease_reply = lease_reply"
  "parse_JSON lease_reply = Some (object_of lease_analysis)"
  by code_simp+

lemma analyzeDocument_lease:
  "analyzeDocument (replying_platform lease_reply) text = Inr (object_of lease_analysis)"
  by (simp add: analyzeDocument_def replying_platform_configured)
    (simp add: replying_platform_def lease_reply_parsed)


lemma uploaded_session:
  "onDrop_begin lease_pdf initial_session = (handleFileUpload lease_pdf initial_session, True)"
  by (simp add: onDrop_begin_def lease_pdf_def)

lemma extracted_session:
  "onDrop_settle (extractTextFromPDF (Inr lease_pages)) s = handleTextExtracted lease_text s"
  by (simp add: onDrop_settle_def extractTextFromPDF_lease cleanedText_lease lease_text_not_empty)

lemma greeted_session_eq:
  "welcome_effect 1000
     (handleTextExtracted lease_text (handleFileUpload lease_pdf initial_session)) =
     \<lparr>uploadedFile = Some lease_pdf, extractedText = lease_text, analysis = [],
      isAnalyzing = False, da_analysis = JNull, da_error = None, autoAnalyzeStarted = False,
      messages = [welcomeMessage 1000 (js ''lease.pdf'')], input = [], isLoading = False,
      chat_error = None\<rparr>"
  by (simp add: welcome_effect_def handleTextExtracted_def handleFileUpload_def
      initial_session_def lease_text_not_empty lease_pdf_def)

lemma autoAnalyze_effect_greeted:
  "autoAnalyze_effect (replying_platform lease_reply)
     (welcome_effect 1000
        (handleTextExtracted lease_text (handleFileUpload lease_pdf initial_session))) =
     (\<lparr>uploadedFile = Some lease_pdf, extractedText = lease_text, analysis = [],
       isAnalyzing = True, da_analysis = JNull, da_error = None, autoAnalyzeStarted = True,
       messages = [welcomeMessage 1000 (js ''lease.pdf'')], input = [], isLoading = False,
       chat_error = None\<rparr>,
      Some lease_text)"
  unfolding greeted_session_eq
  by (simp add: autoAnalyze_effect_def DocumentAnalysis_analyzeDocument_begin_def
      lease_text_not_empty replying_platform_configured)

lemma pending_session_eq:
  "pending_session =
     \<lparr>uploadedFile = Some lease_pdf, extractedText = lease_text, analysis = [],
      isAnalyzing = True, da_analysis = JNull, da_error = None, autoAnalyzeStarted = True,
      messages = [welcomeMessage 1000 (js ''lease.pdf'')], input = [], isLoading = False,
      chat_error = None\<rparr>"
  by (simp only: pending_session_def uploaded_session extracted_session fst_conv
      autoAnalyze_effect_greeted)

lemma ready_session_eq:
  "ready_session =
     \<lparr>uploadedFile = Some lease_pdf, extractedText = lease_text,
      analysis = stringify_JSON (object_of lease_analysis), isAnalyzing = False,
      da_analysis = object_of lease_analysis, da_error = None, autoAnalyzeStarted = True,
      messages = [welcomeMessage 1000 (js ''lease.pdf'')], input = [], isLoading = False,
      chat_error = None\<rparr>"
  by (simp add: ready_session_def pending_session_eq analyzeDocument_lease
      DocumentAnalysis_analyzeDocument_settle_def handleAnalysisComplete_def)
    (simp add: replying_platform_def)

text \<open>The ready session is reached by the upload, the extraction, the two effects and the reply.\<close>

lemma reachable_ready_config: "reachable (replying_platform lease_reply) ready_config"
proof -
  let ?P = "replying_platform lease_reply"
  let ?s1 = "handleFileUpload lease_pdf initial_session"
  let ?s2 = "handleTextExtracted lease_text ?s1"
  let ?s3 = "welcome_effect 1000 ?s2"
  have u: "uploadedFile ?s1 \<noteq> None" "uploadedFile ?s2 \<noteq> None" "uploadedFile ?s3 \<noteq> None"
    by (simp_all add: handleFileUpload_def handleTextExtracted_def welcome_effect_def)
  have n: "uploadedFile (state initial_config) = None"
    by (simp add: initial_config_def initial_session_def)
  have "reachable ?P
          \<lparr>state = ?s1, extracting = True, analysis_calls = [], question_calls = []\<rparr>"
    using reachable.drop [OF reachable.start n, of ?P lease_pdf]
    by (simp add: initial_config_def uploaded_session)
  from reachable.extraction_settles [OF this, of "Inr lease_pages"]
  have "reachable ?P
          \<lparr>state = ?s2, extracting = False, analysis_calls = [], question_calls = []\<rparr>"
    by (simp add: extracted_session)
  from reachable.welcome_message [OF this, of 1000]
  have "reachable ?P
          \<lparr>state = ?s3, extracting = False, analysis_calls = [], question_calls = []\<rparr>"
    using u by simp
  from reachable.auto_analyze [OF this]
  have "reachable ?P
          \<lparr>state = pending_session, extracting = False, analysis_calls = [lease_text],
           question_calls = []\<rparr>"
    using u by (simp add: autoAnalyze_effect_greeted pending_session_eq issued_def)
  from reachable.analysis_settles [OF this, of "[]" lease_text "[]"
      "analyzeDocument ?P lease_text"]
  show ?thesis
    by (simp add: ready_config_def ready_session_def)
qed

section \<open>What holds in every reachable configuration\<close>

lemma uploadedFile_kept:
  "uploadedFile (welcome_effect now s) = uploadedFile s"
  "uploadedFile (fst (autoAnalyze_effect P s)) = uploadedFile s"
  "uploadedFile (fst (DocumentAnalysis_analyzeDocument_begin s)) = uploadedFile s"
  "uploadedFile (fst (reanalyze_click s)) = uploadedFile s"
  "uploadedFile (DocumentAnalysis_analyzeDocument_settle P outcome s) = uploadedFile s"
  "uploadedFile (fst (handleSubmit_begin P now s)) = uploadedFile s"
  "uploadedFile (handleSubmit_settle now answered s) = uploadedFile s"
  "uploadedFile (clearChat now name s) = uploadedFile s"
  "uploadedFile (onDrop_settle extracted s) = uploadedFile s"
  by (auto simp: welcome_effect_def autoAnalyze_effect_def
      DocumentAnalysis_analyzeDocument_begin_def reanalyze_click_def
      DocumentAnalysis_analyzeDocument_settle_def handleAnalysisComplete_def
      handleSubmit_begin_def handleSubmit_settle_def clearChat_def onDrop_settle_def
      handleTextExtracted_def Let_def split: option.splits sum.splits)

text \<open>
  Nothing sets \<^verbatim>\<open>uploadedFile\<close> back to null, and every event but the drop of a file
  needs a file: while no file is uploaded the page is in its initial configuration.
\<close>

lemma reachable_without_file:
  "reachable P c \<Longrightarrow> uploadedFile (state c) = None \<Longrightarrow> c = initial_config"
proof (induction rule: reachable.induct)
  case start
  show ?case ..
next
  case (drop c f)
  from drop.IH drop.hyps(2) have c: "c = initial_config" by simp
  from drop.prems c show ?case
    by (auto simp: onDrop_begin_def handleFileUpload_def initial_config_def split: if_splits)
next
  case (extraction_settles c loaded)
  from extraction_settles.prems have "uploadedFile (state c) = None"
    by (simp add: uploadedFile_kept)
  with extraction_settles.IH have "c = initial_config" by simp
  with extraction_settles.hyps(2) show ?case by (simp add: initial_config_def)
next
  case (analysis_settles c pre t post outcome)
  from analysis_settles.prems have "uploadedFile (state c) = None"
    by (simp add: uploadedFile_kept)
  with analysis_settles.IH have "c = initial_config" by simp
  with analysis_settles.hyps(2) show ?case by (simp add: initial_config_def)
next
  case (submit c now)
  then show ?case by (simp add: uploadedFile_kept submit_enabled_def)
next
  case (question_settles c pre q post now answered)
  from question_settles.prems have "uploadedFile (state c) = None"
    by (simp add: uploadedFile_kept)
  with question_settles.IH have "c = initial_config" by simp
  with question_settles.hyps(2) show ?case by (simp add: initial_config_def)
qed (simp_all add: uploadedFile_kept)






lemma isLoading_kept:
  "isLoading (welcome_effect now s) = isLoading s"
  "isLoading (fst (autoAnalyze_effect P s)) = isLoading s"
  "isLoading (fst (DocumentAnalysis_analyzeDocument_begin s)) = isLoading s"
  "isLoading (fst (reanalyze_click s)) = isLoading s"
  "isLoading (DocumentAnalysis_analyzeDocument_settle P outcome s) = isLoading s"
  "isLoading (clearChat now name s) = isLoading s"
  "isLoading (onDrop_settle extracted s) = isLoading s"
  "isLoading (fst (onDrop_begin f s)) = isLoading s"
  "\<not> isLoading (handleSubmit_settle now answered s)"
  by (auto simp: welcome_effect_def autoAnalyze_effect_def
      DocumentAnalysis_analyzeDocument_begin_def reanalyze_click_def
      DocumentAnalysis_analyzeDocument_settle_def handleAnalysisComplete_def
      handleSubmit_settle_def clearChat_def onDrop_settle_def onDrop_begin_def
      handleFileUpload_def handleTextExtracted_def Let_def split: option.splits sum.splits)

lemma handleSubmit_begin_enabled:
  assumes "submit_enabled P s"
  shows "handleSubmit_begin P now s =
           (s\<lparr>messages := messages s @
                 [\<lparr>msg_id = now, msg_type = user, content = trim (input s), timestamp = now\<rparr>],
               input := [], isLoading := True, chat_error := None\<rparr>,
            Some (extractedText s, trim (input s), Some (analysis s)))"
  using assms by (simp add: submit_enabled_def handleSubmit_begin_def)

text \<open>A question call is pending exactly while the chat is loading, and then it is the only one.\<close>

lemma reachable_one_question:
  "reachable P c \<Longrightarrow> length (question_calls c) = (if isLoading (state c) then 1 else 0)"
proof (induction rule: reachable.induct)
  case start
  show ?case by (simp add: initial_config_def initial_session_def)
next
  case (submit c now)
  from submit.hyps(2) have "\<not> isLoading (state c)" by (simp add: submit_enabled_def)
  with submit.IH show ?case
    by (simp add: handleSubmit_begin_enabled [OF submit.hyps(2)] issued_def)
next
  case (question_settles c pre q post now answered)
  from question_settles.IH question_settles.hyps(2)
  have "pre = []" "post = []"
    by (auto split: if_splits)
  then show ?case by (simp add: isLoading_kept)
qed (simp_all add: isLoading_kept)

section \<open>Re-analysis\<close>




section \<open>Upload\<close>



text \<open>
  In every configuration but the initial one a file is uploaded, so that the upload area
  is not rendered there.
\<close>

lemma reachable_with_file:
  "reachable P c \<Longrightarrow> c \<noteq> initial_config \<Longrightarrow> uploadedFile (state c) \<noteq> None"
  using reachable_without_file by blast

section \<open>Questions\<close>

text \<open>What the guards of the handler do with a submission that the form does not deliver.\<close>

lemma handleSubmit_guards:
  "isLoading s \<Longrightarrow> handleSubmit_begin P now s = (s, None)"
  "trim (input s) \<noteq> [] \<Longrightarrow> \<not> isLoading s \<Longrightarrow> \<not> isConfigured P \<or> extractedText s = [] \<Longrightarrow>
     messages (fst (handleSubmit_begin P now s)) = messages s \<and>
     snd (handleSubmit_begin P now s) = None"
  by (auto simp: handleSubmit_begin_def)

text \<open>
  C9. A submission with an empty question, or a blank one, changes nothing and calls
  nothing. The form delivers a submission only when it is rendered and its button is
  enabled: the service is configured, text is extracted, no answer is loading and the
  question is not blank. Every such submission appends exactly one user turn at once, with
  the trimmed question, and makes one call; while the call is pending the form delivers no
  other submission, so that at most one question call is pending; and when the call settles
  exactly one assistant turn is appended, the answer if the call succeeded and the apology
  if it failed.
\<close>

theorem handleSubmit_turns:
  "(trim (input s) = [] \<longrightarrow> handleSubmit_begin P now s = (s, None)) \<and>
   (submit_enabled P s \<longrightarrow>
      messages (fst (handleSubmit_begin P now s)) =
        messages s @
          [\<lparr>msg_id = now, msg_type = user, content = trim (input s), timestamp = now\<rparr>] \<and>
      snd (handleSubmit_begin P now s) =
        Some (extractedText s, trim (input s), Some (analysis s)) \<and>
      \<not> submit_enabled P (fst (handleSubmit_begin P now s)) \<and>
      messages (handleSubmit P now later s) =
        messages s @
          [\<lparr>msg_id = now, msg_type = user, content = trim (input s), timestamp = now\<rparr>,
           \<lparr>msg_id = later + 1, msg_type = assistant,
            content =
              (case askQuestion P (extractedText s) (trim (input s)) (Some (analysis s)) of
                 Inr answer \<Rightarrow> answer
               | Inl error \<Rightarrow> apology),
            timestamp = later\<rparr>]) \<and>
   messages (handleSubmit_settle later (Inr answer) s') =
     messages s' @
       [\<lparr>msg_id = later + 1, msg_type = assistant, content = answer, timestamp = later\<rparr>] \<and>
   messages (handleSubmit_settle later (Inl e) s') =
     messages s' @
       [\<lparr>msg_id = later + 1, msg_type = assistant, content = apology, timestamp = later\<rparr>] \<and>
   (reachable P c \<longrightarrow> length (question_calls c) = (if isLoading (state c) then 1 else 0))"
  by (auto simp: handleSubmit_begin_def handleSubmit_settle_def handleSubmit_def
      submit_enabled_def reachable_one_question Let_def split: sum.splits)

lemma trim_question:
  "trim (js '' Who is the tenant? '') = js ''Who is the tenant?''"
  "js ''Who is the tenant?'' \<noteq> []"
  "trim [] = []"
  by (simp_all add: js_def trim_def isWhiteSpace_def)

theorem handleSubmit_turns_witness:
  "reachable (replying_platform lease_reply)
     (ready_config\<lparr>state := (state ready_config)\<lparr>input := js '' Who is the tenant? ''\<rparr>\<rparr>) \<and>
   submit_enabled (replying_platform lease_reply)
     (ready_session\<lparr>input := js '' Who is the tenant? ''\<rparr>) \<and>
   messages (fst (handleSubmit_begin (replying_platform lease_reply) 2000
       (ready_session\<lparr>input := js '' Who is the tenant? ''\<rparr>))) =
     [welcomeMessage 1000 (js ''lease.pdf''),
      \<lparr>msg_id = 2000, msg_type = user, content = js ''Who is the tenant?'', timestamp = 2000\<rparr>] \<and>
   snd (handleSubmit_begin (replying_platform lease_reply) 2000
       (ready_session\<lparr>input := js '' Who is the tenant? ''\<rparr>)) =
     Some (lease_text, js ''Who is the tenant?'',
           Some (stringify_JSON (object_of lease_analysis))) \<and>
   messages (handleSubmit_settle 2500 (Inr (js ''Bob.''))
       (fst (handleSubmit_begin (replying_platform lease_reply) 2000
          (ready_session\<lparr>input := js '' Who is the tenant? ''\<rparr>)))) =
     [welcomeMessage 1000 (js ''lease.pdf''),
      \<lparr>msg_id = 2000, msg_type = user, content = js ''Who is the tenant?'', timestamp = 2000\<rparr>,
      \<lparr>msg_id = 2501, msg_type = assistant, content = js ''Bob.'', timestamp = 2500\<rparr>] \<and>
   handleSubmit_begin (replying_platform lease_reply) 2000 ready_session =
     (ready_session, None) \<and>
   length (question_calls ready_config) = 0"
proof -
  let ?P = "replying_platform lease_reply"
  let ?s = "ready_session\<lparr>input := js '' Who is the tenant? ''\<rparr>"
  have r: "reachable ?P
             (ready_config\<lparr>state := (state ready_config)\<lparr>input := js '' Who is the tenant? ''\<rparr>\<rparr>)"
    by (rule reachable.input_change [OF reachable_ready_config])
      (simp add: ready_config_def ready_session_eq)
  have e: "submit_enabled ?P ?s"
    by (simp add: submit_enabled_def ready_session_eq trim_question lease_text_not_empty
        replying_platform_configured)
  have i: "input ready_session = []" "\<not> isLoading (state ready_config)"
    by (simp_all add: ready_session_eq ready_config_def)
  from r e i
    handleSubmit_turns [of ?s ?P 2000 2500 "js ''Bob.''"
        "fst (handleSubmit_begin ?P 2000 ?s)" NonError ready_config]
    handleSubmit_turns [of ready_session ?P 2000 2500 "js ''Bob.''" initial_session NonError
        ready_config]
    reachable_ready_config
  show ?thesis
    by (simp add: ready_session_eq trim_question)
qed

end
